theory Spec2Isabelle
  imports Main "HOL-Library.Word"
begin

unbundle bit_operations_syntax

section \<open>The macros of preamble.h as functions\<close>

text \<open>
  preamble.h is a header of C preprocessor macros. Each macro is embedded as the
  function that maps the macro's arguments to what its expansion denotes:
  \<^item> a macro whose expansion is a C expression becomes a function on the values of
    its arguments;
  \<^item> a macro whose expansion is a comma-separated run of expressions or of
    list elements becomes a function that returns the list;
  \<^item> a macro that only rearranges its arguments (\<open>POP_10TH_ARG\<close>, \<open>WITH_DEFAULTS\<close>)
    becomes a function on the arguments themselves, which stay uninterpreted.
\<close>

subsection \<open>Types\<close>

text \<open>\<^verbatim>\<open>typedef uint8_t u8; typedef uint16_t u16; typedef uint32_t u32; typedef uint64_t u64;\<close>\<close>

type_synonym u8 = "8 word"
type_synonym u16 = "16 word"
type_synonym u32 = "32 word"
type_synonym u64 = "64 word"

text \<open>
  The argument \<open>x\<close> of a formatting macro is any C expression of integer type. It is
  represented by its mathematical value, an \<open>int\<close>: a cast \<open>(uN)(x)\<close> to an unsigned
  type reduces the value modulo \<open>2 ^ N\<close> whatever the signedness and width of the type
  of \<open>x\<close>, which is \<open>word_of_int\<close>. \<open>uint\<close> reads the value of an unsigned operand
  back where C promotes or converts it.
\<close>

subsection \<open>Bit manipulation\<close>

text \<open>C's logical negation \<open>!e\<close>: 1 when the operand compares equal to 0, else 0.\<close>

definition logical_not :: "int \<Rightarrow> int" where
  "logical_not e = (if e = 0 then 1 else 0)"

text \<open>
  \<^verbatim>\<open>#define BIT_CHECK(x, bit)  (!!((x) & (1ULL << (bit))))\<close>

  The operand \<open>x\<close> is converted to \<open>unsigned long long\<close> (64 bits) for \<open>&\<close>. The shift
  \<open>1ULL << bit\<close> is defined in C for \<open>bit < 64\<close> only; the header uses 0 to 7.
\<close>

definition BIT_CHECK :: "int \<Rightarrow> nat \<Rightarrow> int" where
  "BIT_CHECK x bitno =
     logical_not (logical_not (uint ((word_of_int x :: u64) AND push_bit bitno (1 :: u64))))"

subsection \<open>Enums\<close>

text \<open>
  The user writes the canonical list once, as a macro that applies its parameter \<open>F\<close>
  to every name in turn:
  \<^verbatim>\<open>#define FOR_EACH_MY_ENUM(F) F(MY_ENUM_1) F(MY_ENUM_2) ...\<close>
  Its expansion is the expansions of \<open>F(name)\<close> one after the other.
\<close>

definition FOR_EACH :: "string list \<Rightarrow> (string \<Rightarrow> 'a list) \<Rightarrow> 'a list" where
  "FOR_EACH names F = concat (map F names)"

text \<open>What both generators emit: an element of a brace-enclosed list, then a comma.\<close>

datatype 'a item = Item 'a | Comma










text \<open>
  The header uses the type \<open>String\<close> and does not declare it: the includer does. The
  compound literal \<open>(String) { a, b }\<close> initialises its first two members in order;
  they are called \<open>chars\<close> and \<open>len\<close> here.

  \<open>#name\<close> is the string literal spelled like the argument: an array holding the
  characters of the name and a terminating NUL. \<open>sizeof\<close> of an array of \<open>char\<close> is
  its number of elements.
\<close>

record String =
  chars :: "char list"
  len :: nat

definition stringize :: "string \<Rightarrow> char list" where
  "stringize name = name @ [CHR 0x00]"

definition sizeof_chars :: "char list \<Rightarrow> nat" where
  "sizeof_chars a = length a"

text \<open>\<^verbatim>\<open>#define GENERATE_STRING(name) (String) { #name , sizeof(#name) },\<close>\<close>

definition GENERATE_STRING :: "string \<Rightarrow> String item list" where
  "GENERATE_STRING name =
     [Item \<lparr>chars = stringize name, len = sizeof_chars (stringize name)\<rparr>, Comma]"

text \<open>
  The two declarations of the header's usage comment,
  \<^verbatim>\<open>typedef enum { FOR_EACH_MY_ENUM(GENERATE_ENUM) } MyThing;\<close>
  \<^verbatim>\<open>static String MY_ENUM_STRINGS[] = { FOR_EACH_MY_ENUM(GENERATE_STRING) };\<close>
  hand the generated lists to the C compiler. What C (C99, which the header's compound
  literals and variadic macros need) does with them: a brace-enclosed list is one or
  more elements separated by commas, with an optional trailing comma; an enumerator
  is an identifier that is no keyword; enumerators without initialisers count up
  from 0; an enumerator that the scope of the enum already declares, or that is
  declared twice, is an error; an array of unknown size gets one element per
  initialiser.
\<close>

datatype build_error = Syntax_error | Redefinition string

fun brace_list :: "'a item list \<Rightarrow> 'a list option" where
  "brace_list [Item x] = Some [x]"
| "brace_list [Item x, Comma] = Some [x]"
| "brace_list (Item x # Comma # rest) = map_option ((#) x) (brace_list rest)"
| "brace_list _ = None"






definition array_declaration :: "'a item list \<Rightarrow> build_error + 'a list" where
  "array_declaration body =
     (case brace_list body of None \<Rightarrow> Inl Syntax_error | Some elems \<Rightarrow> Inr elems)"

subsection \<open>Default arguments\<close>

text \<open>
  A macro argument is a run of tokens that the macros below move around and never
  look into: a number (the sentinels 8 to 0 are numbers), an identifier, a string
  literal, a call \<open>callee(arguments)\<close>, the empty argument, or any other text.
\<close>

datatype arg =
    Number nat
  | Name string
  | Str string
  | Call arg "arg list"
  | Empty
  | Text string

text \<open>
  \<^verbatim>\<open>#define INTERNAL_CONCAT_HELP(x, y)  x ## y\<close>
  \<^verbatim>\<open>#define INTERNAL_CONCATENATE(x, y)  INTERNAL_CONCAT_HELP(x, y)\<close>

  \<open>##\<close> pastes the spellings of two tokens into one token. Pasting an identifier with
  an identifier or a number gives an identifier; the other pastes are of no use here
  and are \<open>None\<close>.
\<close>

definition digit :: "nat \<Rightarrow> char" where
  "digit d = ''0123456789'' ! d"

fun decimal :: "nat \<Rightarrow> string" where
  "decimal n = (if n < 10 then [digit n] else decimal (n div 10) @ [digit (n mod 10)])"

fun INTERNAL_CONCAT_HELP :: "arg \<Rightarrow> arg \<Rightarrow> arg option" where
  "INTERNAL_CONCAT_HELP (Name x) (Name y) = Some (Name (x @ y))"
| "INTERNAL_CONCAT_HELP (Name x) (Number y) = Some (Name (x @ decimal y))"
| "INTERNAL_CONCAT_HELP x y = None"

definition INTERNAL_CONCATENATE :: "arg \<Rightarrow> arg \<Rightarrow> arg option" where
  "INTERNAL_CONCATENATE x y = INTERNAL_CONCAT_HELP x y"

text \<open>
  \<^verbatim>\<open>#define POP_10TH_ARG(arg1, arg2, arg3, arg4, arg5, arg6, arg7, arg8, argN, ...) argN\<close>

  Nine named parameters and a variable part, which C99 wants non-empty: an invocation
  with fewer than ten arguments is rejected (\<open>None\<close>).
\<close>

fun POP_10TH_ARG :: "'a list \<Rightarrow> 'a option" where
  "POP_10TH_ARG (arg1 # arg2 # arg3 # arg4 # arg5 # arg6 # arg7 # arg8 # argN # v # va) =
     Some argN"
| "POP_10TH_ARG _ = None"

text \<open>
  \<open>__VA_ARGS__\<close> stands for the variable arguments with their commas. A macro invoked
  with nothing between the parentheses has one argument, the empty one, so the
  variable arguments are never no arguments at all.
\<close>

definition VA_ARGS :: "arg list \<Rightarrow> arg list" where
  "VA_ARGS va = (if va = [] then [Empty] else va)"

text \<open>\<^verbatim>\<open>#define VA_ARGS_COUNT(...)  POP_10TH_ARG(__VA_ARGS__, 8, 7, 6, 5, 4, 3, 2, 1, 0)\<close>\<close>

definition SENTINELS :: "arg list" where
  "SENTINELS = [Number 8, Number 7, Number 6, Number 5, Number 4, Number 3, Number 2,
     Number 1, Number 0]"

definition VA_ARGS_COUNT :: "arg list \<Rightarrow> arg option" where
  "VA_ARGS_COUNT va = POP_10TH_ARG (VA_ARGS va @ SENTINELS)"

text \<open>
  \<^verbatim>\<open>#define SELECT_FUNCTION(function, postfix) CONCATENATE(function, postfix)\<close>

  The header defines no macro \<open>CONCATENATE\<close> (its pasting macro is
  \<open>INTERNAL_CONCATENATE\<close>), and the usage example of its comment defines none
  either, so the preprocessor leaves the identifier alone and the expansion is a call
  of something named \<open>CONCATENATE\<close> with the two arguments.
\<close>

definition SELECT_FUNCTION :: "arg \<Rightarrow> arg \<Rightarrow> arg" where
  "SELECT_FUNCTION function postfix = Call (Name ''CONCATENATE'') [function, postfix]"

text \<open>
  \<^verbatim>\<open>#define WITH_DEFAULTS(f, ...) SELECT_FUNCTION(f, VA_ARGS_COUNT(__VA_ARGS__))(__VA_ARGS__)\<close>

  The arguments of \<open>SELECT_FUNCTION\<close> are expanded before they are substituted, so
  \<open>postfix\<close> is what \<open>VA_ARGS_COUNT\<close> expands to.
\<close>

definition WITH_DEFAULTS :: "arg \<Rightarrow> arg list \<Rightarrow> arg option" where
  "WITH_DEFAULTS f va =
     map_option (\<lambda>postfix. Call (SELECT_FUNCTION f postfix) (VA_ARGS va)) (VA_ARGS_COUNT va)"

subsection \<open>Formatting\<close>

text \<open>
  \<^verbatim>\<open>#ifndef BINARY_FORMAT_PATTERN_PREFIX\<close>
  \<^verbatim>\<open>#define BINARY_FORMAT_PATTERN_PREFIX "0b"\<close>
  \<^verbatim>\<open>#endif\<close>
  and the same for \<open>BINARY_FORMAT_PATTERN_DELIMITER\<close> with \<open>"_"\<close>: the includer may
  define either macro before the header, which then keeps that definition.
\<close>

record includer =
  defined_prefix :: "string option"
  defined_delimiter :: "string option"

definition no_definitions :: includer where
  "no_definitions = \<lparr>defined_prefix = None, defined_delimiter = None\<rparr>"

definition BINARY_FORMAT_PATTERN_PREFIX :: "includer \<Rightarrow> string" where
  "BINARY_FORMAT_PATTERN_PREFIX inc =
     (case defined_prefix inc of None \<Rightarrow> ''0b'' | Some p \<Rightarrow> p)"

definition BINARY_FORMAT_PATTERN_DELIMITER :: "includer \<Rightarrow> string" where
  "BINARY_FORMAT_PATTERN_DELIMITER inc =
     (case defined_delimiter inc of None \<Rightarrow> ''_'' | Some d \<Rightarrow> d)"

text \<open>Adjacent string literals are concatenated.\<close>

definition BINARY_FORMAT_PATTERN_8 :: "includer \<Rightarrow> string" where
  "BINARY_FORMAT_PATTERN_8 inc = BINARY_FORMAT_PATTERN_PREFIX inc @ ''%c%c%c%c%c%c%c%c''"

definition BINARY_FORMAT_PATTERN_16 :: "includer \<Rightarrow> string" where
  "BINARY_FORMAT_PATTERN_16 inc =
     BINARY_FORMAT_PATTERN_PREFIX inc @ ''%c%c%c%c%c%c%c%c''
     @ BINARY_FORMAT_PATTERN_DELIMITER inc @ ''%c%c%c%c%c%c%c%c''"

definition BINARY_FORMAT_PATTERN_32 :: "includer \<Rightarrow> string" where
  "BINARY_FORMAT_PATTERN_32 inc =
     BINARY_FORMAT_PATTERN_PREFIX inc @ ''%c%c%c%c%c%c%c%c''
     @ BINARY_FORMAT_PATTERN_DELIMITER inc @ ''%c%c%c%c%c%c%c%c''
     @ BINARY_FORMAT_PATTERN_DELIMITER inc @ ''%c%c%c%c%c%c%c%c''
     @ BINARY_FORMAT_PATTERN_DELIMITER inc @ ''%c%c%c%c%c%c%c%c''"

definition BINARY_FORMAT_PATTERN_64 :: "includer \<Rightarrow> string" where
  "BINARY_FORMAT_PATTERN_64 inc =
     BINARY_FORMAT_PATTERN_PREFIX inc @ ''%c%c%c%c%c%c%c%c''
     @ BINARY_FORMAT_PATTERN_DELIMITER inc @ ''%c%c%c%c%c%c%c%c''
     @ BINARY_FORMAT_PATTERN_DELIMITER inc @ ''%c%c%c%c%c%c%c%c''
     @ BINARY_FORMAT_PATTERN_DELIMITER inc @ ''%c%c%c%c%c%c%c%c''
     @ BINARY_FORMAT_PATTERN_DELIMITER inc @ ''%c%c%c%c%c%c%c%c''
     @ BINARY_FORMAT_PATTERN_DELIMITER inc @ ''%c%c%c%c%c%c%c%c''
     @ BINARY_FORMAT_PATTERN_DELIMITER inc @ ''%c%c%c%c%c%c%c%c''
     @ BINARY_FORMAT_PATTERN_DELIMITER inc @ ''%c%c%c%c%c%c%c%c''"

text \<open>
  \<^verbatim>\<open>#define BYTE_TO_BINARY_CHARS_8(x)  BIT_CHECK((u8)(x), 7) ? '1' : '0', ..., BIT_CHECK((u8)(x), 0) ? '1' : '0'\<close>

  Eight expressions separated by commas, to be passed as eight arguments. A
  condition holds when it is not 0.
\<close>

definition BYTE_TO_BINARY_CHARS_8 :: "int \<Rightarrow> char list" where
  "BYTE_TO_BINARY_CHARS_8 x =
     [if BIT_CHECK (uint (word_of_int x :: u8)) 7 \<noteq> 0 then CHR ''1'' else CHR ''0'',
      if BIT_CHECK (uint (word_of_int x :: u8)) 6 \<noteq> 0 then CHR ''1'' else CHR ''0'',
      if BIT_CHECK (uint (word_of_int x :: u8)) 5 \<noteq> 0 then CHR ''1'' else CHR ''0'',
      if BIT_CHECK (uint (word_of_int x :: u8)) 4 \<noteq> 0 then CHR ''1'' else CHR ''0'',
      if BIT_CHECK (uint (word_of_int x :: u8)) 3 \<noteq> 0 then CHR ''1'' else CHR ''0'',
      if BIT_CHECK (uint (word_of_int x :: u8)) 2 \<noteq> 0 then CHR ''1'' else CHR ''0'',
      if BIT_CHECK (uint (word_of_int x :: u8)) 1 \<noteq> 0 then CHR ''1'' else CHR ''0'',
      if BIT_CHECK (uint (word_of_int x :: u8)) 0 \<noteq> 0 then CHR ''1'' else CHR ''0'']"

text \<open>
  \<^verbatim>\<open>#define BYTE_TO_BINARY_CHARS_16(x) BYTE_TO_BINARY_CHARS_8(((u16)  (x)) >> 8),  BYTE_TO_BINARY_CHARS_8(((u16)  (x)))\<close>
  \<^verbatim>\<open>#define BYTE_TO_BINARY_CHARS_32(x) BYTE_TO_BINARY_CHARS_16(((u32) (x)) >> 16), BYTE_TO_BINARY_CHARS_16(((u32) (x)))\<close>
  \<^verbatim>\<open>#define BYTE_TO_BINARY_CHARS_64(x) BYTE_TO_BINARY_CHARS_32(((u64) (x)) >> 32), BYTE_TO_BINARY_CHARS_32(((u64) (x)))\<close>

  A \<open>u16\<close> operand of \<open>>>\<close> is promoted to \<open>int\<close> and keeps its value, so that shift is
  on the value; \<open>u32\<close> and \<open>u64\<close> operands are shifted in their own type.
\<close>

definition BYTE_TO_BINARY_CHARS_16 :: "int \<Rightarrow> char list" where
  "BYTE_TO_BINARY_CHARS_16 x =
     BYTE_TO_BINARY_CHARS_8 (drop_bit 8 (uint (word_of_int x :: u16)))
     @ BYTE_TO_BINARY_CHARS_8 (uint (word_of_int x :: u16))"

definition BYTE_TO_BINARY_CHARS_32 :: "int \<Rightarrow> char list" where
  "BYTE_TO_BINARY_CHARS_32 x =
     BYTE_TO_BINARY_CHARS_16 (uint (drop_bit 16 (word_of_int x :: u32)))
     @ BYTE_TO_BINARY_CHARS_16 (uint (word_of_int x :: u32))"

definition BYTE_TO_BINARY_CHARS_64 :: "int \<Rightarrow> char list" where
  "BYTE_TO_BINARY_CHARS_64 x =
     BYTE_TO_BINARY_CHARS_32 (uint (drop_bit 32 (word_of_int x :: u64)))
     @ BYTE_TO_BINARY_CHARS_32 (uint (word_of_int x :: u64))"

section \<open>Reference definitions\<close>

text \<open>
  The big-endian bit expansion of the low \<open>w\<close> bits of \<open>v\<close>: one character per bit,
  from bit \<open>w - 1\<close> down to bit 0.
\<close>

definition bit_char :: "bool \<Rightarrow> char" where
  "bit_char b = (if b then CHR ''1'' else CHR ''0'')"

definition bit_expansion :: "nat \<Rightarrow> int \<Rightarrow> char list" where
  "bit_expansion w v = map (\<lambda>i. bit_char (bit v i)) (rev [0..<w])"

text \<open>Reassembling an integer from bit characters, most significant first.\<close>

definition reassemble :: "char list \<Rightarrow> int" where
  "reassemble cs = foldl (\<lambda>acc c. 2 * acc + (if c = CHR ''1'' then 1 else 0)) 0 cs"


text \<open>
  The pattern as the specification describes it: the prefix, then one group of eight
  placeholders per byte, the groups separated by the delimiter.
\<close>

fun separated :: "string \<Rightarrow> string list \<Rightarrow> string" where
  "separated d [] = []"
| "separated d [g] = g"
| "separated d (g # gs) = g @ d @ separated d gs"

definition byte_group :: string where
  "byte_group = concat (replicate 8 ''%c'')"

definition pattern_of_width :: "nat \<Rightarrow> string" where
  "pattern_of_width w = ''0b'' @ separated ''_'' (replicate (w div 8) byte_group)"

text \<open>The number of \<open>%c\<close> placeholders of a pattern, read from the left.\<close>

fun placeholders :: "string \<Rightarrow> nat" where
  "placeholders [] = 0"
| "placeholders [c] = 0"
| "placeholders (c # d # s) =
     (if c = CHR ''%'' \<and> d = CHR ''c'' then Suc (placeholders s) else placeholders (d # s))"

text \<open>
  The formatting sink for such a pattern: every \<open>%c\<close> prints the next value, every
  other character prints itself; values left over are ignored, a value that is
  missing makes the call undefined (\<open>None\<close>).
\<close>

fun print_chars :: "string \<Rightarrow> char list \<Rightarrow> string option" where
  "print_chars [] vs = Some []"
| "print_chars [c] vs = Some [c]"
| "print_chars (c # d # s) vs =
     (if c = CHR ''%'' \<and> d = CHR ''c''
      then (case vs of [] \<Rightarrow> None | v # vs' \<Rightarrow> map_option ((#) v) (print_chars s vs'))
      else map_option ((#) c) (print_chars (d # s) vs))"

text \<open>
  What the sink prints for a width and a value: the prefix, then the bytes of the
  value from the most significant to the least significant, each as its eight bits,
  separated by the delimiter.
\<close>

definition binary_literal :: "nat \<Rightarrow> int \<Rightarrow> string" where
  "binary_literal w v =
     ''0b'' @ separated ''_''
       (map (\<lambda>k. bit_expansion 8 (drop_bit (8 * k) v)) (rev [0..<w div 8]))"

section \<open>Bit values\<close>

lemma BIT_CHECK_bit: "(BIT_CHECK x n \<noteq> 0) = (n < 64 \<and> bit x n)"
proof -
  have "(BIT_CHECK x n \<noteq> 0) = ((word_of_int x :: u64) AND push_bit n 1 \<noteq> 0)"
    by (simp add: BIT_CHECK_def logical_not_def unsigned_eq_0_iff)
  also have "\<dots> = bit (word_of_int x :: u64) n"
    by (simp only: bit_iff_and_push_bit_not_eq_0)
  also have "\<dots> = (n < 64 \<and> bit x n)"
    by (simp add: bit_word_of_int_iff)
  finally show ?thesis .
qed

lemma BIT_CHECK_u8: "n < 8 \<Longrightarrow> (BIT_CHECK (uint (word_of_int x :: u8)) n \<noteq> 0) = bit x n"
  by (simp add: BIT_CHECK_bit bit_uint_iff bit_word_of_int_iff)

lemma rev_upt_8: "rev [0..<8] = [7, 6, 5, 4, 3, 2, 1, 0::nat]"
  by (simp add: upt_rec)

lemma length_bit_expansion: "length (bit_expansion w v) = w"
  by (simp add: bit_expansion_def)

lemma bit_expansion_add:
  "bit_expansion (m + n) v = bit_expansion m (drop_bit n v) @ bit_expansion n v"
proof -
  have "[0..<m + n] = [0..<n] @ map (\<lambda>i. i + n) [0..<m]"
    by (metis add.commute map_add_upt upt_add_eq_append zero_le)
  then show ?thesis
    by (simp add: bit_expansion_def bit_drop_bit_eq rev_map o_def add.commute)
qed

lemma bit_expansion_take_bit:
  "w \<le> k \<Longrightarrow> bit_expansion w (take_bit k v) = bit_expansion w v"
  by (simp add: bit_expansion_def bit_take_bit_iff)

lemma BYTE_TO_BINARY_CHARS_8_expansion: "BYTE_TO_BINARY_CHARS_8 x = bit_expansion 8 x"
  unfolding BYTE_TO_BINARY_CHARS_8_def bit_expansion_def rev_upt_8
  by (simp add: BIT_CHECK_u8 bit_char_def)

lemma BYTE_TO_BINARY_CHARS_16_expansion: "BYTE_TO_BINARY_CHARS_16 x = bit_expansion 16 x"
proof -
  have "bit_expansion (8 + 8) (take_bit 16 x) = bit_expansion 16 x"
    by (simp add: bit_expansion_take_bit)
  then show ?thesis
    unfolding BYTE_TO_BINARY_CHARS_16_def BYTE_TO_BINARY_CHARS_8_expansion
      uint_word_of_int_eq bit_expansion_add
    by simp
qed

lemma BYTE_TO_BINARY_CHARS_32_expansion: "BYTE_TO_BINARY_CHARS_32 x = bit_expansion 32 x"
proof -
  have "bit_expansion (16 + 16) (take_bit 32 x) = bit_expansion 32 x"
    by (simp add: bit_expansion_take_bit)
  then show ?thesis
    unfolding BYTE_TO_BINARY_CHARS_32_def BYTE_TO_BINARY_CHARS_16_expansion
      uint_word_of_int_eq bit_expansion_add
    by (simp add: unsigned_drop_bit_eq uint_word_of_int_eq)
qed

lemma BYTE_TO_BINARY_CHARS_64_expansion: "BYTE_TO_BINARY_CHARS_64 x = bit_expansion 64 x"
proof -
  have "bit_expansion (32 + 32) (take_bit 64 x) = bit_expansion 64 x"
    by (simp add: bit_expansion_take_bit)
  then show ?thesis
    unfolding BYTE_TO_BINARY_CHARS_64_def BYTE_TO_BINARY_CHARS_32_expansion
      uint_word_of_int_eq bit_expansion_add
    by (simp add: unsigned_drop_bit_eq uint_word_of_int_eq)
qed

text \<open>
  Claim C1. For each of the widths 8, 16, 32 and 64 and every integer \<open>v\<close>, the values
  produced by \<open>BYTE_TO_BINARY_CHARS_w\<close> are exactly \<open>w\<close> characters, the character for
  a bit being \<open>1\<close> when that bit of \<open>v\<close> is set and \<open>0\<close> otherwise, in the order bit
  \<open>w - 1\<close> down to bit 0; only the low \<open>w\<close> bits of \<open>v\<close> matter.
\<close>

theorem BYTE_TO_BINARY_CHARS_bit_expansion:
  "BYTE_TO_BINARY_CHARS_8 v = map (\<lambda>i. if bit v i then CHR ''1'' else CHR ''0'') (rev [0..<8])
   \<and> BYTE_TO_BINARY_CHARS_16 v = map (\<lambda>i. if bit v i then CHR ''1'' else CHR ''0'') (rev [0..<16])
   \<and> BYTE_TO_BINARY_CHARS_32 v = map (\<lambda>i. if bit v i then CHR ''1'' else CHR ''0'') (rev [0..<32])
   \<and> BYTE_TO_BINARY_CHARS_64 v = map (\<lambda>i. if bit v i then CHR ''1'' else CHR ''0'') (rev [0..<64])
   \<and> length (BYTE_TO_BINARY_CHARS_8 v) = 8 \<and> length (BYTE_TO_BINARY_CHARS_16 v) = 16
   \<and> length (BYTE_TO_BINARY_CHARS_32 v) = 32 \<and> length (BYTE_TO_BINARY_CHARS_64 v) = 64
   \<and> BYTE_TO_BINARY_CHARS_8 v = BYTE_TO_BINARY_CHARS_8 (v mod 2 ^ 8)
   \<and> BYTE_TO_BINARY_CHARS_16 v = BYTE_TO_BINARY_CHARS_16 (v mod 2 ^ 16)
   \<and> BYTE_TO_BINARY_CHARS_32 v = BYTE_TO_BINARY_CHARS_32 (v mod 2 ^ 32)
   \<and> BYTE_TO_BINARY_CHARS_64 v = BYTE_TO_BINARY_CHARS_64 (v mod 2 ^ 64)"
proof -
  have bits: "bit_expansion w v = map (\<lambda>i. if bit v i then CHR ''1'' else CHR ''0'') (rev [0..<w])"
    for w
    by (simp add: bit_expansion_def bit_char_def)
  have low: "bit_expansion w (v mod 2 ^ w) = bit_expansion w v" for w
    using bit_expansion_take_bit [of w w v] by (simp add: take_bit_eq_mod)
  show ?thesis
    unfolding BYTE_TO_BINARY_CHARS_8_expansion BYTE_TO_BINARY_CHARS_16_expansion
      BYTE_TO_BINARY_CHARS_32_expansion BYTE_TO_BINARY_CHARS_64_expansion
      length_bit_expansion low
    by (simp add: bits)
qed

text \<open>
  Claim C5. The width-16 values are the width-8 values of \<open>v >> 8\<close> followed by the
  width-8 values of \<open>v\<close>; the width-32 values are the width-16 values of \<open>v >> 16\<close>
  followed by those of \<open>v\<close>; the width-64 values are the width-32 values of \<open>v >> 32\<close>
  followed by those of \<open>v\<close>. Here \<open>v >> n\<close> shifts the value: \<open>drop_bit n v\<close>.
\<close>

theorem BYTE_TO_BINARY_CHARS_composition:
  "BYTE_TO_BINARY_CHARS_16 v = BYTE_TO_BINARY_CHARS_8 (drop_bit 8 v) @ BYTE_TO_BINARY_CHARS_8 v
   \<and> BYTE_TO_BINARY_CHARS_32 v = BYTE_TO_BINARY_CHARS_16 (drop_bit 16 v) @ BYTE_TO_BINARY_CHARS_16 v
   \<and> BYTE_TO_BINARY_CHARS_64 v = BYTE_TO_BINARY_CHARS_32 (drop_bit 32 v) @ BYTE_TO_BINARY_CHARS_32 v"
  using bit_expansion_add [of 8 8 v] bit_expansion_add [of 16 16 v] bit_expansion_add [of 32 32 v]
  by (simp add: BYTE_TO_BINARY_CHARS_8_expansion BYTE_TO_BINARY_CHARS_16_expansion
      BYTE_TO_BINARY_CHARS_32_expansion BYTE_TO_BINARY_CHARS_64_expansion)

lemma reassemble_acc:
  "foldl (\<lambda>acc c. 2 * acc + (if c = CHR ''1'' then 1 else 0)) a (bit_expansion w v)
     = a * 2 ^ w + take_bit w v"
proof (induction w arbitrary: a)
  case 0
  then show ?case by (simp add: bit_expansion_def)
next
  case (Suc w)
  let ?f = "\<lambda>(acc::int) c. 2 * acc + (if c = CHR ''1'' then 1 else 0)"
  have "bit_expansion (Suc w) v = bit_char (bit v w) # bit_expansion w v"
    by (simp add: bit_expansion_def)
  then have "foldl ?f a (bit_expansion (Suc w) v)
      = foldl ?f (2 * a + of_bool (bit v w)) (bit_expansion w v)"
    by (simp add: bit_char_def)
  also have "\<dots> = (2 * a + of_bool (bit v w)) * 2 ^ w + take_bit w v"
    by (rule Suc.IH)
  also have "\<dots> = a * 2 ^ Suc w + take_bit (Suc w) v"
    by (simp add: take_bit_Suc_from_most algebra_simps)
  finally show ?case .
qed

lemma reassemble_bit_expansion: "reassemble (bit_expansion w v) = v mod 2 ^ w"
  by (simp add: reassemble_def reassemble_acc take_bit_eq_mod)

text \<open>
  Claim C6. For each of the widths 8, 16, 32 and 64 and every \<open>v\<close>, reading the values
  of \<open>BYTE_TO_BINARY_CHARS_w\<close> back as bits, most significant first, gives
  \<open>v mod 2 ^ w\<close>.
\<close>

theorem BYTE_TO_BINARY_CHARS_round_trip:
  "reassemble (BYTE_TO_BINARY_CHARS_8 v) = v mod 2 ^ 8
   \<and> reassemble (BYTE_TO_BINARY_CHARS_16 v) = v mod 2 ^ 16
   \<and> reassemble (BYTE_TO_BINARY_CHARS_32 v) = v mod 2 ^ 32
   \<and> reassemble (BYTE_TO_BINARY_CHARS_64 v) = v mod 2 ^ 64"
  by (simp only: BYTE_TO_BINARY_CHARS_8_expansion BYTE_TO_BINARY_CHARS_16_expansion
      BYTE_TO_BINARY_CHARS_32_expansion BYTE_TO_BINARY_CHARS_64_expansion
      reassemble_bit_expansion simp_thms)

section \<open>Enum and name table\<close>

lemma brace_list_generated:
  "names \<noteq> [] \<Longrightarrow>
   brace_list (concat (map (\<lambda>n. [Item (g n), Comma]) names)) = Some (map g names)"
proof (induction names)
  case Nil
  then show ?case by simp
next
  case (Cons n ns)
  show ?case
  proof (cases ns)
    case Nil
    then show ?thesis by simp
  next
    case (Cons m ms)
    with Cons.IH show ?thesis by simp
  qed
qed










lemma array_declaration_generated:
  "L \<noteq> [] \<Longrightarrow>
   array_declaration (FOR_EACH L GENERATE_STRING)
     = Inr (map (\<lambda>n. \<lparr>chars = stringize n, len = sizeof_chars (stringize n)\<rparr>) L)"
  using brace_list_generated
    [of L "\<lambda>n. \<lparr>chars = stringize n, len = sizeof_chars (stringize n)\<rparr>"]
  by (simp add: array_declaration_def FOR_EACH_def GENERATE_STRING_def [abs_def])




text \<open>
  Claim C9. For every name of the canonical list, the second member of its entry in
  the generated table is the number of characters of the name plus one: it is the
  \<open>sizeof\<close> of the string literal, which counts the terminating NUL, and so is not
  the number of characters.
\<close>

theorem NameTable_len_counts_NUL:
  assumes "i < length L"
  shows "\<exists>table. array_declaration (FOR_EACH L GENERATE_STRING) = Inr table
           \<and> len (table ! i) = length (L ! i) + 1
           \<and> len (table ! i) \<noteq> length (L ! i)"
proof -
  from assms have "L \<noteq> []" by auto
  with assms show ?thesis
    by (simp add: array_declaration_generated sizeof_chars_def stringize_def)
qed

theorem NameTable_len_counts_NUL_witness:
  "(1::nat) < length [''RED'', ''GREEN''] \<and>
   (\<exists>table. array_declaration (FOR_EACH [''RED'', ''GREEN''] GENERATE_STRING) = Inr table
      \<and> len (table ! 1) = length ''GREEN'' + 1)"
  using NameTable_len_counts_NUL [of 1 "[''RED'', ''GREEN'']"]
  by auto

section \<open>Default arguments\<close>

lemma POP_10TH_ARG_nth:
  "POP_10TH_ARG xs = (if 10 \<le> length xs then Some (xs ! 8) else None)"
  by (cases xs rule: POP_10TH_ARG.cases) simp_all

lemma VA_ARGS_nonempty: "va \<noteq> [] \<Longrightarrow> VA_ARGS va = va"
  by (simp add: VA_ARGS_def)

lemma length_VA_ARGS: "1 \<le> length (VA_ARGS va)"
  by (cases va) (simp_all add: VA_ARGS_def)

lemma length_SENTINELS: "length SENTINELS = 9"
  by (simp add: SENTINELS_def)

lemma SENTINELS_nth:
  assumes "j \<le> 8"
  shows "SENTINELS ! j = Number (8 - j)"
proof -
  from assms have "j \<in> {0, 1, 2, 3, 4, 5, 6, 7, 8}" by auto
  then show ?thesis by (auto simp: SENTINELS_def)
qed

text \<open>Counting never fails: with the sentinels there are always ten arguments.\<close>

lemma VA_ARGS_COUNT_total: "\<exists>postfix. VA_ARGS_COUNT va = Some postfix"
  using length_VA_ARGS [of va]
  by (simp add: VA_ARGS_COUNT_def POP_10TH_ARG_nth length_SENTINELS)

text \<open>
  Claim C2, as found in the code. \<open>POP_10TH_ARG\<close> returns its parameter \<open>argN\<close>, which
  is the ninth argument of the full list and not the tenth. For a call with \<open>k\<close>
  arguments, \<open>1 \<le> k \<le> 8\<close>, followed by the sentinels 8, 7, 6, 5, 4, 3, 2, 1, 0, the
  ninth slot holds \<open>k\<close>, and that is what \<open>VA_ARGS_COUNT\<close> yields.
\<close>

theorem VA_ARGS_COUNT_counts:
  assumes "length va = k" and "1 \<le> k" and "k \<le> 8"
  shows "VA_ARGS_COUNT va = Some (Number k) \<and> (VA_ARGS va @ SENTINELS) ! (9 - 1) = Number k"
proof -
  from assms have va: "VA_ARGS va = va" by (auto simp: VA_ARGS_def)
  from assms have "(va @ SENTINELS) ! 8 = SENTINELS ! (8 - k)"
    by (simp add: nth_append)
  also from assms have "\<dots> = Number k"
    by (simp add: SENTINELS_nth)
  finally have slot: "(va @ SENTINELS) ! 8 = Number k" .
  from assms have "10 \<le> length (va @ SENTINELS)"
    by (simp add: length_SENTINELS)
  with slot va show ?thesis
    by (simp add: VA_ARGS_COUNT_def POP_10TH_ARG_nth)
qed

theorem VA_ARGS_COUNT_counts_witness:
  "length [Str ''Greetings'', Str ''Sailor''] = 2 \<and> (1::nat) \<le> 2 \<and> (2::nat) \<le> 8 \<and>
   VA_ARGS_COUNT [Str ''Greetings'', Str ''Sailor''] = Some (Number 2) \<and>
   (VA_ARGS [Str ''Greetings'', Str ''Sailor''] @ SENTINELS) ! (9 - 1) = Number 2"
  using VA_ARGS_COUNT_counts [of "[Str ''Greetings'', Str ''Sailor'']" 2]
  by simp

text \<open>
  Claim C2, as stated, has the count in the tenth slot. For the call with the one
  argument \<open>"Sailor"\<close> the full list is \<open>"Sailor", 8, 7, 6, 5, 4, 3, 2, 1, 0\<close>: its tenth
  slot (index 9 from 0) holds 0, which is not the number of arguments, and
  \<open>VA_ARGS_COUNT\<close> reads the ninth slot.
\<close>

theorem VA_ARGS_COUNT_tenth_slot_counterexample:
  "(VA_ARGS [Str ''Sailor''] @ SENTINELS) ! (10 - 1) = Number 0 \<and>
   Number 0 \<noteq> Number (length [Str ''Sailor'']) \<and>
   VA_ARGS_COUNT [Str ''Sailor''] = Some ((VA_ARGS [Str ''Sailor''] @ SENTINELS) ! (9 - 1)) \<and>
   VA_ARGS_COUNT [Str ''Sailor''] \<noteq> Some ((VA_ARGS [Str ''Sailor''] @ SENTINELS) ! (10 - 1))"
  by (simp add: VA_ARGS_COUNT_def VA_ARGS_def SENTINELS_def)

text \<open>
  Claim C10. With nine or more arguments \<open>VA_ARGS_COUNT\<close> neither fails nor counts:
  it yields the ninth argument of the call, and that argument is the postfix that
  \<open>WITH_DEFAULTS\<close> hands to \<open>SELECT_FUNCTION\<close>.
\<close>

theorem VA_ARGS_COUNT_nine_or_more:
  assumes "9 \<le> length va"
  shows "VA_ARGS_COUNT va = Some (va ! 8) \<and>
         WITH_DEFAULTS f va = Some (Call (SELECT_FUNCTION f (va ! 8)) va)"
proof -
  from assms have va: "VA_ARGS va = va" by (auto simp: VA_ARGS_def)
  from assms have "(va @ SENTINELS) ! 8 = va ! 8"
    by (simp add: nth_append)
  moreover from assms have "10 \<le> length (va @ SENTINELS)"
    by (simp add: length_SENTINELS)
  ultimately have "VA_ARGS_COUNT va = Some (va ! 8)"
    using va by (simp add: VA_ARGS_COUNT_def POP_10TH_ARG_nth)
  with va show ?thesis
    by (simp add: WITH_DEFAULTS_def)
qed

theorem VA_ARGS_COUNT_nine_or_more_witness:
  "(9::nat) \<le> length [Name ''a'', Name ''b'', Name ''c'', Name ''d'', Name ''e'', Name ''f'',
      Name ''g'', Name ''h'', Name ''i'']
   \<and> VA_ARGS_COUNT [Name ''a'', Name ''b'', Name ''c'', Name ''d'', Name ''e'', Name ''f'',
      Name ''g'', Name ''h'', Name ''i''] = Some (Name ''i'')
   \<and> WITH_DEFAULTS (Name ''greet'') [Name ''a'', Name ''b'', Name ''c'', Name ''d'', Name ''e'',
      Name ''f'', Name ''g'', Name ''h'', Name ''i'']
     = Some (Call (SELECT_FUNCTION (Name ''greet'') (Name ''i'')) [Name ''a'', Name ''b'',
         Name ''c'', Name ''d'', Name ''e'', Name ''f'', Name ''g'', Name ''h'', Name ''i''])"
  using VA_ARGS_COUNT_nine_or_more [of "[Name ''a'', Name ''b'', Name ''c'', Name ''d'',
      Name ''e'', Name ''f'', Name ''g'', Name ''h'', Name ''i'']" "Name ''greet''"]
  by simp

text \<open>
  Claim C3, at the usage example of the header's own comment:
  \<^verbatim>\<open>#define greet(...) WITH_DEFAULTS(greet, __VA_ARGS__)\<close>
  with \<open>greet1\<close> and \<open>greet2\<close> defined. The calls \<open>greet("Sailor")\<close> and
  \<open>greet("Greetings", "Sailor")\<close> do not expand to calls of \<open>greet1\<close> and \<open>greet2\<close>:
  the count is right, but the name is never pasted, and what is called is
  \<open>CONCATENATE(greet, 1)\<close> and \<open>CONCATENATE(greet, 2)\<close>.
\<close>

theorem WITH_DEFAULTS_greet_not_selected:
  "WITH_DEFAULTS (Name ''greet'') [Str ''Sailor'']
     = Some (Call (Call (Name ''CONCATENATE'') [Name ''greet'', Number 1]) [Str ''Sailor''])
   \<and> WITH_DEFAULTS (Name ''greet'') [Str ''Sailor'']
     \<noteq> Some (Call (Name ''greet1'') [Str ''Sailor''])
   \<and> WITH_DEFAULTS (Name ''greet'') [Str ''Greetings'', Str ''Sailor'']
     = Some (Call (Call (Name ''CONCATENATE'') [Name ''greet'', Number 2])
         [Str ''Greetings'', Str ''Sailor''])
   \<and> WITH_DEFAULTS (Name ''greet'') [Str ''Greetings'', Str ''Sailor'']
     \<noteq> Some (Call (Name ''greet2'') [Str ''Greetings'', Str ''Sailor''])"
  by (simp add: WITH_DEFAULTS_def SELECT_FUNCTION_def VA_ARGS_COUNT_def VA_ARGS_def
      SENTINELS_def)

text \<open>
  The header's own pasting macro, given the same two arguments, does form the names.
\<close>

lemma INTERNAL_CONCATENATE_greet:
  "INTERNAL_CONCATENATE (Name ''greet'') (Number 1) = Some (Name ''greet1'')
   \<and> INTERNAL_CONCATENATE (Name ''greet'') (Number 2) = Some (Name ''greet2'')"
  by (simp add: INTERNAL_CONCATENATE_def digit_def)

section \<open>Patterns\<close>

lemma replicate_numeral: "replicate (numeral k) x = x # replicate (pred_numeral k) x"
  by (simp add: numeral_eq_Suc)

lemma rev_upt_numeral: "rev [0..<numeral k] = pred_numeral k # rev [0..<pred_numeral k]"
  by (simp add: numeral_eq_Suc)

lemma byte_group_chars: "byte_group = ''%c%c%c%c%c%c%c%c''"
  by (simp add: byte_group_def replicate_numeral)

lemmas pattern_defs =
  BINARY_FORMAT_PATTERN_8_def BINARY_FORMAT_PATTERN_16_def BINARY_FORMAT_PATTERN_32_def
  BINARY_FORMAT_PATTERN_64_def BINARY_FORMAT_PATTERN_PREFIX_def
  BINARY_FORMAT_PATTERN_DELIMITER_def no_definitions_def

lemma patterns_of_width:
  "BINARY_FORMAT_PATTERN_8 no_definitions = pattern_of_width 8"
  "BINARY_FORMAT_PATTERN_16 no_definitions = pattern_of_width 16"
  "BINARY_FORMAT_PATTERN_32 no_definitions = pattern_of_width 32"
  "BINARY_FORMAT_PATTERN_64 no_definitions = pattern_of_width 64"
  by (simp_all add: pattern_defs pattern_of_width_def byte_group_chars replicate_numeral)

lemma placeholders_of_patterns:
  "placeholders (BINARY_FORMAT_PATTERN_8 no_definitions) = 8"
  "placeholders (BINARY_FORMAT_PATTERN_16 no_definitions) = 16"
  "placeholders (BINARY_FORMAT_PATTERN_32 no_definitions) = 32"
  "placeholders (BINARY_FORMAT_PATTERN_64 no_definitions) = 64"
  by (simp_all add: pattern_defs)

text \<open>
  Claim C7. With the header's own prefix and delimiter, each of the four patterns is
  \<open>0b\<close> followed by \<open>w\<close> placeholders \<open>%c\<close> in groups of eight, the groups separated by
  \<open>_\<close>; the pattern has \<open>w\<close> placeholders, as many as the matching values.
\<close>

theorem BINARY_FORMAT_PATTERN_placeholders:
  "BINARY_FORMAT_PATTERN_8 no_definitions = pattern_of_width 8
   \<and> BINARY_FORMAT_PATTERN_16 no_definitions = pattern_of_width 16
   \<and> BINARY_FORMAT_PATTERN_32 no_definitions = pattern_of_width 32
   \<and> BINARY_FORMAT_PATTERN_64 no_definitions = pattern_of_width 64
   \<and> placeholders (BINARY_FORMAT_PATTERN_8 no_definitions) = 8
   \<and> placeholders (BINARY_FORMAT_PATTERN_16 no_definitions) = 16
   \<and> placeholders (BINARY_FORMAT_PATTERN_32 no_definitions) = 32
   \<and> placeholders (BINARY_FORMAT_PATTERN_64 no_definitions) = 64
   \<and> length (BYTE_TO_BINARY_CHARS_8 v) = placeholders (BINARY_FORMAT_PATTERN_8 no_definitions)
   \<and> length (BYTE_TO_BINARY_CHARS_16 v) = placeholders (BINARY_FORMAT_PATTERN_16 no_definitions)
   \<and> length (BYTE_TO_BINARY_CHARS_32 v) = placeholders (BINARY_FORMAT_PATTERN_32 no_definitions)
   \<and> length (BYTE_TO_BINARY_CHARS_64 v) = placeholders (BINARY_FORMAT_PATTERN_64 no_definitions)"
  by (simp only: patterns_of_width [symmetric] placeholders_of_patterns
      BYTE_TO_BINARY_CHARS_8_expansion BYTE_TO_BINARY_CHARS_16_expansion
      BYTE_TO_BINARY_CHARS_32_expansion BYTE_TO_BINARY_CHARS_64_expansion
      length_bit_expansion simp_thms)

subsection \<open>Pattern and values at the sink\<close>

lemma print_chars_group:
  assumes "length g = 8"
  shows "print_chars (CHR ''%'' # CHR ''c'' # CHR ''%'' # CHR ''c'' # CHR ''%'' # CHR ''c''
           # CHR ''%'' # CHR ''c'' # CHR ''%'' # CHR ''c'' # CHR ''%'' # CHR ''c''
           # CHR ''%'' # CHR ''c'' # CHR ''%'' # CHR ''c'' # p) (g @ vs)
         = map_option ((@) g) (print_chars p vs)"
proof -
  from assms obtain a b c d e f h i where "g = [a, b, c, d, e, f, h, i]"
    by (auto simp: length_Suc_conv eval_nat_numeral)
  then show ?thesis
    by (cases "print_chars p vs") simp_all
qed

lemma print_chars_last_group:
  assumes "length g = 8"
  shows "print_chars ''%c%c%c%c%c%c%c%c'' g = Some g"
  using print_chars_group [OF assms, of "[]" "[]"] by simp

lemma print_chars_literal:
  "c \<noteq> CHR ''%'' \<Longrightarrow>
   print_chars (c # d # s) vs = map_option ((#) c) (print_chars (d # s) vs)"
  by simp

lemma bit_expansion_16:
  "bit_expansion 16 v = bit_expansion 8 (drop_bit 8 v) @ bit_expansion 8 v"
  using bit_expansion_add [of 8 8 v] by simp

lemma bit_expansion_32:
  "bit_expansion 32 v = bit_expansion 8 (drop_bit 24 v) @ bit_expansion 8 (drop_bit 16 v)
     @ bit_expansion 8 (drop_bit 8 v) @ bit_expansion 8 v"
  using bit_expansion_add [of 16 16 v] by (simp add: bit_expansion_16)

lemma bit_expansion_64:
  "bit_expansion 64 v = bit_expansion 8 (drop_bit 56 v) @ bit_expansion 8 (drop_bit 48 v)
     @ bit_expansion 8 (drop_bit 40 v) @ bit_expansion 8 (drop_bit 32 v)
     @ bit_expansion 8 (drop_bit 24 v) @ bit_expansion 8 (drop_bit 16 v)
     @ bit_expansion 8 (drop_bit 8 v) @ bit_expansion 8 v"
  using bit_expansion_add [of 32 32 v] by (simp add: bit_expansion_32)

lemma print_chars_bit_expansion:
  "print_chars (BINARY_FORMAT_PATTERN_8 no_definitions) (bit_expansion 8 v)
     = Some (binary_literal 8 v)"
  "print_chars (BINARY_FORMAT_PATTERN_16 no_definitions) (bit_expansion 16 v)
     = Some (binary_literal 16 v)"
  "print_chars (BINARY_FORMAT_PATTERN_32 no_definitions) (bit_expansion 32 v)
     = Some (binary_literal 32 v)"
  "print_chars (BINARY_FORMAT_PATTERN_64 no_definitions) (bit_expansion 64 v)
     = Some (binary_literal 64 v)"
  by (simp_all add: pattern_defs binary_literal_def bit_expansion_16 bit_expansion_32
      bit_expansion_64 rev_upt_numeral print_chars_group print_chars_last_group
      print_chars_literal length_bit_expansion del: print_chars.simps(3))

text \<open>
  Printing a pattern with its values, as in the header's usage comment
  \<^verbatim>\<open>printf(BINARY_FORMAT_PATTERN_64 "\n", BYTE_TO_BINARY_CHARS_64(x));\<close>
  gives the binary literal of the value: the byte groups are in the order most
  significant byte first.
\<close>

lemma print_chars_BYTE_TO_BINARY_CHARS:
  "print_chars (BINARY_FORMAT_PATTERN_8 no_definitions) (BYTE_TO_BINARY_CHARS_8 v)
     = Some (binary_literal 8 v)
   \<and> print_chars (BINARY_FORMAT_PATTERN_16 no_definitions) (BYTE_TO_BINARY_CHARS_16 v)
     = Some (binary_literal 16 v)
   \<and> print_chars (BINARY_FORMAT_PATTERN_32 no_definitions) (BYTE_TO_BINARY_CHARS_32 v)
     = Some (binary_literal 32 v)
   \<and> print_chars (BINARY_FORMAT_PATTERN_64 no_definitions) (BYTE_TO_BINARY_CHARS_64 v)
     = Some (binary_literal 64 v)"
  by (simp only: BYTE_TO_BINARY_CHARS_8_expansion BYTE_TO_BINARY_CHARS_16_expansion
      BYTE_TO_BINARY_CHARS_32_expansion BYTE_TO_BINARY_CHARS_64_expansion
      print_chars_bit_expansion simp_thms)

text \<open>The example of the specification: the value \<open>0b10110000\<close> at width 8.\<close>

lemma BYTE_TO_BINARY_CHARS_8_example:
  "BYTE_TO_BINARY_CHARS_8 176 = ''10110000''
   \<and> BINARY_FORMAT_PATTERN_8 no_definitions = ''0b%c%c%c%c%c%c%c%c''"
  by (simp add: BYTE_TO_BINARY_CHARS_8_expansion bit_expansion_def rev_upt_8 bit_char_def
      pattern_defs)

end
